theory Spec2Isabelle
  imports Complex_Main "HOL-Library.AList"
begin

section \<open>JavaScript values held by the forms\<close>

text \<open>
  A JavaScript number is a double. The code below only tests numbers (\<open>isNaN\<close>,
  \<open>> 0\<close>, \<open>===\<close>) and never computes with them, so a finite double is kept as the
  rational it denotes; the two zeros are one value, which none of these tests tells apart.
\<close>

datatype jsnum = NaN | PosInfinity | NegInfinity | Fin rat

text \<open>
  The value of a form field: the declared types of \<open>InventoryItem\<close> (\<open>string\<close>,
  \<open>number\<close>, \<open>undefined\<close>) and \<open>null\<close>, which the forms test for.
\<close>

datatype jsval = Undefined | Null | Str string | Num jsnum

text \<open>An object literal: its own enumerable properties in insertion order.\<close>

type_synonym obj = "(string \<times> jsval) list"

text \<open>
  The conversions between strings and numbers that \<open>Number(...)\<close> and \<open>String(...)\<close>
  perform are part of the language, not of this program: they are taken as parameters.
\<close>

record runtime =
  StringToNumber :: "string \<Rightarrow> jsnum"
  NumberToString :: "jsnum \<Rightarrow> string"

text \<open>\<open>Number(value)\<close>\<close>

fun js_Number :: "runtime \<Rightarrow> jsval \<Rightarrow> jsnum" where
  "js_Number rt Undefined = NaN"
| "js_Number rt Null = Fin 0"
| "js_Number rt (Str s) = StringToNumber rt s"
| "js_Number rt (Num n) = n"

text \<open>\<open>String(value)\<close>\<close>

fun js_String :: "runtime \<Rightarrow> jsval \<Rightarrow> string" where
  "js_String rt Undefined = ''undefined''"
| "js_String rt Null = ''null''"
| "js_String rt (Str s) = s"
| "js_String rt (Num n) = NumberToString rt n"

definition isNaN :: "jsnum \<Rightarrow> bool" where
  "isNaN n = (n = NaN)"

text \<open>\<open>n > 0\<close>\<close>

fun greater_than_zero :: "jsnum \<Rightarrow> bool" where
  "greater_than_zero (Fin q) = (0 < q)"
| "greater_than_zero PosInfinity = True"
| "greater_than_zero NegInfinity = False"
| "greater_than_zero NaN = False"

text \<open>\<open>a === b\<close>: equal types and equal values, \<open>NaN\<close> being equal to nothing.\<close>

definition strict_eq :: "jsval \<Rightarrow> jsval \<Rightarrow> bool" where
  "strict_eq a b = (a = b \<and> a \<noteq> Num NaN)"

text \<open>The truth value of \<open>value\<close> in a condition.\<close>

fun truthy :: "jsval \<Rightarrow> bool" where
  "truthy Undefined = False"
| "truthy Null = False"
| "truthy (Str s) = (s \<noteq> [])"
| "truthy (Num n) = (n \<noteq> NaN \<and> n \<noteq> Fin 0)"

section \<open>HTTP access layer (api.ts)\<close>

datatype http_method = GET | POST | PUT | DELETE

record response =
  status :: nat
  data :: string

text \<open>
  The request configuration handed to the axios instance (its \<open>method\<close> is the field
  \<open>req_method\<close> here). \<open>retryCount\<close> is the field that \<open>RetryConfig\<close> adds; it is
  absent until the response interceptor sets it.
\<close>

record request_config =
  req_method :: http_method
  url :: string
  payload :: "obj option"
  retryCount :: "nat option"

record axios_error =
  code :: "string option"
  response :: "response option"
  message :: string
  config :: "request_config option"

definition MAX_RETRIES :: nat where
  "MAX_RETRIES = 3"

definition RETRY_DELAY :: nat where
  "RETRY_DELAY = 1000"

text \<open>
  What the rejection handler of the response interceptor does with an error: reject it to
  the caller, or wait and issue the request again with the updated configuration.
\<close>

datatype handled = Reject axios_error | Retry nat request_config

definition on_rejected :: "axios_error \<Rightarrow> handled" where
  "on_rejected error =
     (case config error of
        None \<Rightarrow> Reject error
      | Some cfg \<Rightarrow>
          (let count = (case retryCount cfg of None \<Rightarrow> 0 | Some c \<Rightarrow> c)
           in if count < MAX_RETRIES
              then Retry RETRY_DELAY (cfg\<lparr>retryCount := Some (count + 1)\<rparr>)
              else Reject
                (let error' = error\<lparr>config := Some (cfg\<lparr>retryCount := Some count\<rparr>)\<rparr>
                 in if code error' = Some ''ECONNABORTED''
                    then error'\<lparr>message :=
                      ''Request timed out. Please check if the server is running.''\<rparr>
                    else if response error' = None
                    then error'\<lparr>message :=
                      ''Network error. Please check your connection and if the server is running.''\<rparr>
                    else error')))"

text \<open>
  The network is the sequence of outcomes of the underlying attempts, the \<open>n\<close>-th attempt
  either answering or failing. Axios builds the error of a failed request around the
  configuration of that request; an error raised before a request existed has none. So
  the network only says whether its error has a configuration, and \<open>dispatch\<close> makes it
  the one of the request sent.
\<close>

type_synonym network = "nat \<Rightarrow> axios_error + response"

definition dispatch :: "network \<Rightarrow> nat \<Rightarrow> request_config \<Rightarrow> axios_error + response" where
  "dispatch net n cfg =
     (case net n of
        Inr r \<Rightarrow> Inr r
      | Inl e \<Rightarrow> Inl (e\<lparr>config := map_option (\<lambda>_. cfg) (config e)\<rparr>))"

datatype event = Request request_config | Wait nat

text \<open>
  \<open>api(config)\<close>: one attempt through the interceptors. The fulfilment handler returns
  the response; the rejection handler may call \<open>api(config)\<close> again, which is the next
  attempt on the network.
\<close>

function api :: "network \<Rightarrow> nat \<Rightarrow> request_config \<Rightarrow> (axios_error + response) \<times> event list" where
  "api net n cfg =
     (case dispatch net n cfg of
        Inr r \<Rightarrow> (Inr r, [Request cfg])
      | Inl error \<Rightarrow>
          (case on_rejected error of
             Reject e \<Rightarrow> (Inl e, [Request cfg])
           | Retry delay cfg' \<Rightarrow>
               (case api net (Suc n) cfg' of
                  (res, evs) \<Rightarrow> (res, Request cfg # Wait delay # evs))))"
  by pat_completeness auto
termination
  by (relation "measure (\<lambda>(net, n, cfg).
        MAX_RETRIES - (case retryCount cfg of None \<Rightarrow> 0 | Some c \<Rightarrow> c))")
     (auto simp: dispatch_def on_rejected_def Let_def
           split: sum.splits option.splits if_splits)

declare api.simps [simp del]

text \<open>The five operations exported by the module, each a first attempt on the network.\<close>

definition getAllItems :: "network \<Rightarrow> (axios_error + response) \<times> event list" where
  "getAllItems net =
     api net 0 \<lparr>req_method = GET, url = '''', payload = None, retryCount = None\<rparr>"

definition getItemByBarcode :: "network \<Rightarrow> string \<Rightarrow> (axios_error + response) \<times> event list" where
  "getItemByBarcode net barcode =
     api net 0 \<lparr>req_method = GET, url = ''/'' @ barcode, payload = None, retryCount = None\<rparr>"

definition createItem :: "network \<Rightarrow> obj \<Rightarrow> (axios_error + response) \<times> event list" where
  "createItem net item_data =
     api net 0 \<lparr>req_method = POST, url = '''', payload = Some item_data, retryCount = None\<rparr>"

definition updateItem :: "network \<Rightarrow> string \<Rightarrow> obj \<Rightarrow> (axios_error + response) \<times> event list" where
  "updateItem net ident item_data =
     api net 0 \<lparr>req_method = PUT, url = ''/'' @ ident, payload = Some item_data, retryCount = None\<rparr>"

definition deleteItem :: "network \<Rightarrow> string \<Rightarrow> (axios_error + response) \<times> event list" where
  "deleteItem net ident =
     api net 0 \<lparr>req_method = DELETE, url = ''/'' @ ident, payload = None, retryCount = None\<rparr>"

datatype operation =
    ListItems
  | LookupByBarcode string
  | CreateItem obj
  | UpdateItem string obj
  | DeleteItem string

fun perform :: "network \<Rightarrow> operation \<Rightarrow> (axios_error + response) \<times> event list" where
  "perform net ListItems = getAllItems net"
| "perform net (LookupByBarcode barcode) = getItemByBarcode net barcode"
| "perform net (CreateItem item_data) = createItem net item_data"
| "perform net (UpdateItem ident item_data) = updateItem net ident item_data"
| "perform net (DeleteItem ident) = deleteItem net ident"

text \<open>Reading a run: the number of attempts made and the delays waited, in order.\<close>

fun attempts :: "event list \<Rightarrow> nat" where
  "attempts [] = 0"
| "attempts (Request c # evs) = Suc (attempts evs)"
| "attempts (Wait d # evs) = attempts evs"

fun delays :: "event list \<Rightarrow> nat list" where
  "delays [] = []"
| "delays (Request c # evs) = delays evs"
| "delays (Wait d # evs) = d # delays evs"

text \<open>An attempt that fails as a request that was sent does: its error has a configuration.\<close>

definition request_failed :: "axios_error + response \<Rightarrow> bool" where
  "request_failed outcome = (case outcome of Inl e \<Rightarrow> config e \<noteq> None | Inr r \<Rightarrow> False)"

text \<open>\<open>config.retryCount || 0\<close>, the number of retries already made for a request.\<close>

definition count_of :: "request_config \<Rightarrow> nat" where
  "count_of cfg = (case retryCount cfg of None \<Rightarrow> 0 | Some c \<Rightarrow> c)"

text \<open>
  The request each operation hands to the axios instance: \<open>api.get('')\<close>,
  \<open>api.get(`/${barcode}`)\<close>, \<open>api.post('', data)\<close>, \<open>api.put(`/${id}`, data)\<close>,
  \<open>api.delete(`/${id}`)\<close>.
\<close>

fun request_of :: "operation \<Rightarrow> request_config" where
  "request_of ListItems =
     \<lparr>req_method = GET, url = '''', payload = None, retryCount = None\<rparr>"
| "request_of (LookupByBarcode barcode) =
     \<lparr>req_method = GET, url = ''/'' @ barcode, payload = None, retryCount = None\<rparr>"
| "request_of (CreateItem item_data) =
     \<lparr>req_method = POST, url = '''', payload = Some item_data, retryCount = None\<rparr>"
| "request_of (UpdateItem ident item_data) =
     \<lparr>req_method = PUT, url = ''/'' @ ident, payload = Some item_data, retryCount = None\<rparr>"
| "request_of (DeleteItem ident) =
     \<lparr>req_method = DELETE, url = ''/'' @ ident, payload = None, retryCount = None\<rparr>"

text \<open>
  The run of a request that is retried until attempt \<open>k\<close> (counted from 0): attempt \<open>i\<close>
  sends the same method, url and payload, with \<open>retryCount\<close> equal to \<open>i\<close> once it has
  been retried, and 1000 ms are waited after each attempt but the last.
\<close>

definition sent :: "request_config \<Rightarrow> nat \<Rightarrow> request_config" where
  "sent cfg i = (if i = 0 then cfg else cfg\<lparr>retryCount := Some i\<rparr>)"

fun attempts_before :: "request_config \<Rightarrow> nat \<Rightarrow> event list" where
  "attempts_before cfg 0 = []"
| "attempts_before cfg (Suc k) = attempts_before cfg k @ [Request (sent cfg k), Wait 1000]"

definition retry_trace :: "request_config \<Rightarrow> nat \<Rightarrow> event list" where
  "retry_trace cfg k = attempts_before cfg k @ [Request (sent cfg k)]"

section \<open>External image lookup (getProductImage)\<close>

text \<open>
  What \<open>res.json()\<close> can yield (an object is the list of its properties, each key
  once), and a value during evaluation, which may be \<open>undefined\<close>.
\<close>

datatype json =
    JNull
  | JBool bool
  | JNumber jsnum
  | JString string
  | JArray "json list"
  | JObject "(string \<times> json) list"

datatype js = Undef | Val json

datatype thrown = FetchFailed | BodyNotJson | TypeError

text \<open>
  \<open>x.p\<close> for the property names read below (\<open>status\<close>, \<open>product\<close>, \<open>image_front_url\<close>,
  \<open>image_url\<close>), which no string, number, boolean or array has of its own: reading a
  property of \<open>null\<close> or \<open>undefined\<close> throws, an object gives the property or
  \<open>undefined\<close>, all else gives \<open>undefined\<close>.
\<close>

fun get_prop :: "js \<Rightarrow> string \<Rightarrow> thrown + js" where
  "get_prop Undef p = Inl TypeError"
| "get_prop (Val JNull) p = Inl TypeError"
| "get_prop (Val (JObject kvs)) p =
     Inr (case map_of kvs p of None \<Rightarrow> Undef | Some v \<Rightarrow> Val v)"
| "get_prop (Val (JBool b)) p = Inr Undef"
| "get_prop (Val (JNumber n)) p = Inr Undef"
| "get_prop (Val (JString s)) p = Inr Undef"
| "get_prop (Val (JArray xs)) p = Inr Undef"

fun js_truthy :: "js \<Rightarrow> bool" where
  "js_truthy Undef = False"
| "js_truthy (Val JNull) = False"
| "js_truthy (Val (JBool b)) = b"
| "js_truthy (Val (JNumber n)) = (n \<noteq> NaN \<and> n \<noteq> Fin 0)"
| "js_truthy (Val (JString s)) = (s \<noteq> [])"
| "js_truthy (Val (JArray xs)) = True"
| "js_truthy (Val (JObject kvs)) = True"

text \<open>
  The outcome of \<open>fetch(url)\<close> followed by \<open>res.json()\<close>: the request fails, the body is
  not JSON, or the body parses. The web is a function of the URL.
\<close>

datatype fetched = Rejected | Unparsable | Body json

text \<open>The body of the \<open>try\<close> block: it returns a value or throws.\<close>

definition getProductImage_try :: "(string \<Rightarrow> fetched) \<Rightarrow> string \<Rightarrow> thrown + js" where
  "getProductImage_try web barcode =
     (case web (''https://world.openfoodfacts.org/api/v0/product/'' @ barcode @ ''.json'') of
        Rejected \<Rightarrow> Inl FetchFailed
      | Unparsable \<Rightarrow> Inl BodyNotJson
      | Body d \<Rightarrow>
          (case get_prop (Val d) ''status'' of
             Inl e \<Rightarrow> Inl e
           | Inr st \<Rightarrow>
               if st = Val (JNumber (Fin 1))
               then (case get_prop (Val d) ''product'' of
                       Inl e \<Rightarrow> Inl e
                     | Inr product \<Rightarrow>
                         (case get_prop product ''image_front_url'' of
                            Inl e \<Rightarrow> Inl e
                          | Inr front \<Rightarrow>
                              if js_truthy front then Inr front
                              else get_prop product ''image_url''))
               else Inr (Val JNull)))"

text \<open>\<open>getProductImage\<close>: the \<open>catch\<close> block turns whatever was thrown into \<open>null\<close>.\<close>

definition getProductImage :: "(string \<Rightarrow> fetched) \<Rightarrow> string \<Rightarrow> js" where
  "getProductImage web barcode =
     (case getProductImage_try web barcode of Inl e \<Rightarrow> Val JNull | Inr v \<Rightarrow> v)"

section \<open>The item forms (AddItemForm, EditItemForm)\<close>

text \<open>\<open>InventoryItem\<close>, every property optional (its \<open>id\<close> is the field \<open>item_id\<close>).\<close>

record InventoryItem =
  item_id :: "string option"
  barcode :: "string option"
  name :: "string option"
  description :: "string option"
  quantity :: "jsnum option"
  price :: "jsnum option"
  category :: "string option"
  expiryDate :: "string option"
  photoURL :: "string option"

definition of_string :: "string option \<Rightarrow> jsval" where
  "of_string p = (case p of None \<Rightarrow> Undefined | Some s \<Rightarrow> Str s)"

definition of_number :: "jsnum option \<Rightarrow> jsval" where
  "of_number p = (case p of None \<Rightarrow> Undefined | Some n \<Rightarrow> Num n)"

text \<open>\<open>item[k]\<close>\<close>

definition item_get :: "InventoryItem \<Rightarrow> string \<Rightarrow> jsval" where
  "item_get item k =
     (if k = ''id'' then of_string (item_id item)
      else if k = ''barcode'' then of_string (barcode item)
      else if k = ''name'' then of_string (name item)
      else if k = ''description'' then of_string (description item)
      else if k = ''quantity'' then of_number (quantity item)
      else if k = ''price'' then of_number (price item)
      else if k = ''category'' then of_string (category item)
      else if k = ''expiryDate'' then of_string (expiryDate item)
      else if k = ''photoURL'' then of_string (photoURL item)
      else Undefined)"

text \<open>\<open>p || ''\<close> for an optional string property.\<close>

definition or_empty :: "string option \<Rightarrow> jsval" where
  "or_empty p = (case p of None \<Rightarrow> Str '''' | Some s \<Rightarrow> Str s)"

text \<open>The initial \<open>formData\<close> of the two forms.\<close>

definition AddItemForm_formData :: obj where
  "AddItemForm_formData =
     [(''barcode'', Str ''''), (''name'', Str ''''), (''description'', Str ''''),
      (''category'', Str ''''), (''quantity'', Undefined), (''price'', Undefined),
      (''expiryDate'', Str ''''), (''photoURL'', Str '''')]"

definition EditItemForm_formData :: "InventoryItem \<Rightarrow> obj" where
  "EditItemForm_formData item =
     [(''barcode'', or_empty (barcode item)), (''name'', or_empty (name item)),
      (''description'', or_empty (description item)),
      (''category'', or_empty (category item)),
      (''quantity'', of_number (quantity item)), (''price'', of_number (price item)),
      (''expiryDate'', or_empty (expiryDate item)),
      (''photoURL'', or_empty (photoURL item))]"

text \<open>
  \<open>handleChange\<close>, the same in both forms: \<open>{...prev, [name]: ...}\<close> with the name and
  the value of the input that changed.
\<close>

definition handleChange :: "runtime \<Rightarrow> string \<Rightarrow> string \<Rightarrow> obj \<Rightarrow> obj" where
  "handleChange rt input_name input_value prev =
     AList.update input_name
       (if input_name = ''price'' \<or> input_name = ''quantity''
        then (if input_value = '''' then Undefined
              else Num (StringToNumber rt input_value))
        else Str input_value)
       prev"

text \<open>
  The body of the \<open>forEach\<close> over \<open>Object.entries(formData)\<close> in
  \<open>AddItemForm.handleSubmit\<close>: one entry, and \<open>dataToSend\<close> before and after it.
\<close>

fun add_entry :: "runtime \<Rightarrow> obj \<Rightarrow> string \<times> jsval \<Rightarrow> obj" where
  "add_entry rt dataToSend (k, v) =
     (if strict_eq v (Str '''') \<or> strict_eq v Undefined \<or> strict_eq v Null
      then dataToSend
      else if k = ''price'' \<or> k = ''quantity''
      then (let numValue = js_Number rt v
            in if \<not> isNaN numValue \<and> greater_than_zero numValue
               then AList.update k (Num numValue) dataToSend
               else dataToSend)
      else AList.update k (Str (js_String rt v)) dataToSend)"

definition AddItemForm_dataToSend :: "runtime \<Rightarrow> obj \<Rightarrow> obj" where
  "AddItemForm_dataToSend rt formData = foldl (add_entry rt) [] formData"

text \<open>\<open>AddItemForm.handleSubmit\<close>: the change-set goes to \<open>createItem\<close>.\<close>

definition AddItemForm_handleSubmit ::
    "runtime \<Rightarrow> network \<Rightarrow> obj \<Rightarrow> (axios_error + response) \<times> event list" where
  "AddItemForm_handleSubmit rt net formData =
     createItem net (AddItemForm_dataToSend rt formData)"

text \<open>The body of the \<open>forEach\<close> in \<open>EditItemForm.handleSubmit\<close>.\<close>

fun edit_entry :: "runtime \<Rightarrow> InventoryItem \<Rightarrow> obj \<Rightarrow> string \<times> jsval \<Rightarrow> obj" where
  "edit_entry rt item dataToSend (k, v) =
     (let originalValue = item_get item k
      in if k = ''price'' \<or> k = ''quantity''
         then (if strict_eq v (Str '''')
               then (if \<not> strict_eq originalValue Undefined
                     then AList.update k Undefined dataToSend
                     else dataToSend)
               else if \<not> strict_eq v Undefined
               then (let numValue = js_Number rt v
                     in if \<not> strict_eq (Num numValue) originalValue
                        then AList.update k (Num numValue) dataToSend
                        else dataToSend)
               else dataToSend)
         else (if strict_eq v (Str '''')
               then (if \<not> strict_eq originalValue Undefined
                     then AList.update k Undefined dataToSend
                     else dataToSend)
               else if \<not> strict_eq v originalValue
               then AList.update k
                      (if truthy v then Str (js_String rt v) else Undefined) dataToSend
               else dataToSend))"

definition EditItemForm_dataToSend :: "runtime \<Rightarrow> InventoryItem \<Rightarrow> obj \<Rightarrow> obj" where
  "EditItemForm_dataToSend rt item formData = foldl (edit_entry rt item) [] formData"

text \<open>
  What \<open>EditItemForm.handleSubmit\<close> does: it sets an error and returns, or it calls
  \<open>updateItem(item.id, dataToSend)\<close>.
\<close>

datatype submission = Refused string | Update string obj

definition EditItemForm_handleSubmit :: "runtime \<Rightarrow> InventoryItem \<Rightarrow> obj \<Rightarrow> submission" where
  "EditItemForm_handleSubmit rt item formData =
     (case item_id item of
        None \<Rightarrow> Refused ''Item ID is missing''
      | Some ident \<Rightarrow>
          if ident = [] then Refused ''Item ID is missing''
          else (let dataToSend = EditItemForm_dataToSend rt item formData
                in if length (map fst dataToSend) = 0
                   then Refused ''No changes were made to the item''
                   else Update ident dataToSend))"

text \<open>
  Each entry writes at most its own key. What the entry \<open>(k, v)\<close> stores under \<open>k\<close>, if
  anything, in the two forms:
\<close>

definition add_field :: "runtime \<Rightarrow> string \<Rightarrow> jsval \<Rightarrow> jsval option" where
  "add_field rt k v = map_of (add_entry rt [] (k, v)) k"

definition edit_field :: "runtime \<Rightarrow> InventoryItem \<Rightarrow> string \<Rightarrow> jsval \<Rightarrow> jsval option" where
  "edit_field rt item k v = map_of (edit_entry rt item [] (k, v)) k"

text \<open>
  An item none of whose string properties is the empty string and none of whose numbers
  is \<open>NaN\<close>.
\<close>

definition no_blank :: "InventoryItem \<Rightarrow> bool" where
  "no_blank item =
     (barcode item \<noteq> Some [] \<and> name item \<noteq> Some [] \<and> description item \<noteq> Some [] \<and>
      category item \<noteq> Some [] \<and> expiryDate item \<noteq> Some [] \<and> photoURL item \<noteq> Some [] \<and>
      quantity item \<noteq> Some NaN \<and> price item \<noteq> Some NaN)"

section \<open>Barcode scanner (BarcodeScanner)\<close>

text \<open>\<open>s.includes(sub)\<close>\<close>

fun str_includes :: "string \<Rightarrow> string \<Rightarrow> bool" where
  "str_includes [] sub = (sub = [])"
| "str_includes (c # cs) sub = (take (length sub) (c # cs) = sub \<or> str_includes cs sub)"

text \<open>\<open>s.toLowerCase()\<close>, on ASCII letters.\<close>

definition toLowerCase :: "string \<Rightarrow> string" where
  "toLowerCase s =
     map (\<lambda>c. let n = (of_char c :: nat)
              in if 65 \<le> n \<and> n \<le> 90 then char_of (n + 32) else c) s"

text \<open>An error object (its \<open>name\<close> and \<open>message\<close>) and a camera (its \<open>id\<close> and \<open>label\<close>).\<close>

record js_error =
  error_name :: string
  error_message :: string

record camera =
  camera_id :: string
  camera_label :: string

text \<open>
  What the platform and the scanning library do during one call of
  \<open>initializeScanner\<close>: whether \<open>stop()\<close>, the constructor, \<open>getCameras()\<close> and \<open>start()\<close>
  fail, and with which error. \<open>getCameras()\<close> may resolve to a falsy value.
\<close>

record platform =
  userAgent :: string
  stop_error :: "js_error option"
  constructor_error :: "js_error option"
  getCameras :: "js_error + camera list option"
  start_error :: "js_error option"

datatype camera_source = FacingMode string | DeviceId string

datatype library_call = Stop nat | Start nat camera_source

text \<open>
  The component: its React state, the reference to the current \<open>Html5Qrcode\<close> instance,
  and what it acts on. Instances are numbered as they are constructed; \<open>scanning\<close> lists
  those with a running session; \<open>calls\<close> lists the \<open>stop\<close> and \<open>start\<close> calls that
  resolved, in order; \<open>detected\<close> lists the texts handed to \<open>onBarcodeDetected\<close>.
\<close>

record component =
  error :: string
  isCameraActive :: bool
  isLoading :: bool
  scanningTips :: string
  showGuides :: bool
  html5QrCodeRef :: "nat option"
  constructed :: nat
  scanning :: "nat list"
  calls :: "library_call list"
  detected :: "string list"
  guides_timer :: bool
  console :: "string list"

definition console_log :: "string \<Rightarrow> component \<Rightarrow> component" where
  "console_log line s = s\<lparr>console := console s @ [line]\<rparr>"

text \<open>\<open>handleBarcodeDetected\<close> (the beep and the flash of the reader element left out).\<close>

definition handleBarcodeDetected :: "string \<Rightarrow> component \<Rightarrow> component" where
  "handleBarcodeDetected decodedText s =
     (console_log (''Barcode detected: '' @ decodedText) s)\<lparr>detected := detected s @ [decodedText]\<rparr>"

text \<open>The two callbacks given to \<open>start\<close>, the same in both branches.\<close>

definition qrCodeSuccessCallback :: "string \<Rightarrow> component \<Rightarrow> component" where
  "qrCodeSuccessCallback decodedText s =
     handleBarcodeDetected decodedText (console_log (''Barcode detected: '' @ decodedText) s)"

definition qrCodeErrorCallback :: "string \<Rightarrow> component \<Rightarrow> component" where
  "qrCodeErrorCallback errorMessage s =
     (if \<not> str_includes errorMessage ''No barcode or QR code found''
      then console_log (''Scanning error: '' @ errorMessage) s
      else s)"

text \<open>
  \<open>stopScanner\<close> calls \<open>stop()\<close> on the instance referred to, if there is one, and
  awaits it. \<open>stop_settled\<close> is what follows the await: when \<open>stop()\<close> resolved, the
  session of that instance has ended and the reference is cleared; when it rejected, the
  error is logged and nothing else changes.
\<close>

definition stop_settled :: "platform \<Rightarrow> nat \<Rightarrow> component \<Rightarrow> component" where
  "stop_settled p i s =
     (case stop_error p of
        None \<Rightarrow> s\<lparr>scanning := removeAll i (scanning s), calls := calls s @ [Stop i],
                   html5QrCodeRef := None\<rparr>
      | Some err \<Rightarrow> console_log ''Error stopping scanner:'' s)"

text \<open>\<open>stopScanner\<close> run to its end, nothing else running at its await.\<close>

definition stopScanner :: "platform \<Rightarrow> component \<Rightarrow> component" where
  "stopScanner p s =
     (case html5QrCodeRef s of
        None \<Rightarrow> s
      | Some i \<Rightarrow> stop_settled p i s)"

text \<open>\<open>html5QrCode.start(source, config, ...)\<close> on instance \<open>i\<close>: it rejects, or the session runs.\<close>

definition start :: "platform \<Rightarrow> nat \<Rightarrow> camera_source \<Rightarrow> component \<Rightarrow> js_error + component" where
  "start p i source s =
     (case start_error p of
        Some err \<Rightarrow> Inl err
      | None \<Rightarrow> Inr (s\<lparr>scanning := i # scanning s, calls := calls s @ [Start i source]\<rparr>))"

text \<open>The choice of the camera on devices other than iOS.\<close>

definition is_back_camera :: "camera \<Rightarrow> bool" where
  "is_back_camera cam =
     (let label = toLowerCase (camera_label cam)
      in str_includes label ''back'' \<or>
         str_includes label ''rear'' \<or>
         str_includes label ''environment'' \<or>
         str_includes label ''main'' \<or>
         str_includes label ''primary'')"

definition select_camera :: "camera list \<Rightarrow> string" where
  "select_camera cameras =
     (case find is_back_camera cameras of
        Some backCamera \<Rightarrow> camera_id backCamera
      | None \<Rightarrow> camera_id (hd cameras))"

text \<open>The outer \<open>catch\<close> of \<open>initializeScanner\<close>.\<close>

definition classify :: "js_error \<Rightarrow> string" where
  "classify mediaError =
     (if error_name mediaError = ''NotAllowedError''
      then ''Camera access was denied. Please allow camera access in your browser settings and refresh the page.''
      else if error_name mediaError = ''NotFoundError''
      then ''No camera found. Please make sure your camera is connected and try again.''
      else if error_name mediaError = ''NotReadableError''
      then ''Camera is in use by another application. Please close other apps using the camera and try again.''
      else if error_name mediaError = ''OverconstrainedError''
      then ''Camera does not meet the required specifications. Please try again with different camera settings.''
      else ''Failed to initialize camera: '' @
           (if error_message mediaError \<noteq> [] then error_message mediaError else ''Unknown error'') @
           ''. Please check your camera permissions and try again.'')"

text \<open>After a session has started: the tip, and the timer that will show the guides.\<close>

definition camera_ready :: "component \<Rightarrow> component" where
  "camera_ready s =
     s\<lparr>scanningTips := ''Camera ready. Position the barcode in the center of the frame.'',
       guides_timer := True\<rparr>"

text \<open>\<open>/iPad|iPhone|iPod/.test(navigator.userAgent)\<close>\<close>

definition isIOS :: "platform \<Rightarrow> bool" where
  "isIOS p =
     (str_includes (userAgent p) ''iPad'' \<or>
      str_includes (userAgent p) ''iPhone'' \<or>
      str_includes (userAgent p) ''iPod'')"

text \<open>
  \<open>initializeScanner\<close> is an async function: it runs up to an \<open>await\<close>, and goes on when
  the awaited call has settled. Where a call of it is suspended: at the \<open>stop()\<close> of the
  instance that was referred to on entry (if any), at \<open>getCameras()\<close>, or at the
  \<open>start\<close> of the instance it constructed; or it has returned.
\<close>

datatype suspended =
    AtStop "nat option"
  | AtGetCameras nat
  | AtStart nat camera_source
  | Returned

text \<open>The \<open>finally\<close> block, and the three \<open>catch\<close> blocks followed by it.\<close>

definition init_finally :: "component \<Rightarrow> component" where
  "init_finally s = s\<lparr>isLoading := False\<rparr>"

definition init_caught :: "js_error \<Rightarrow> component \<Rightarrow> component" where
  "init_caught err s =
     init_finally ((console_log ''Scanner initialization error:'' s)
       \<lparr>error := classify err, isCameraActive := False\<rparr>)"

definition ios_start_caught :: "component \<Rightarrow> component" where
  "ios_start_caught s =
     init_finally ((console_log ''Failed to start with environment facingMode:'' s)
       \<lparr>error := ''Failed to initialize camera. Please try again.'',
        isCameraActive := False, isLoading := False\<rparr>)"

definition camera_caught :: "component \<Rightarrow> component" where
  "camera_caught s =
     init_finally ((console_log ''Camera initialization error:'' s)
       \<lparr>error := ''Failed to initialize camera. Please check your camera permissions and try again.'',
        isCameraActive := False, isLoading := False\<rparr>)"

text \<open>From the call to the first \<open>await\<close>, inside \<open>stopScanner\<close>.\<close>

definition init_begin :: "component \<Rightarrow> component \<times> suspended" where
  "init_begin s0 =
     (s0\<lparr>isLoading := True, error := [], scanningTips := ''Initializing camera...'',
         showGuides := False\<rparr>,
      AtStop (html5QrCodeRef s0))"

text \<open>
  From one \<open>await\<close> to the next, the awaited call settling as the platform says. A
  rejected \<open>start\<close> is caught by the \<open>catch\<close> of the branch that called it: the iOS
  branch starts by facing mode, the other by device id.
\<close>

definition init_resume :: "platform \<Rightarrow> suspended \<Rightarrow> component \<Rightarrow> component \<times> suspended" where
  "init_resume p point s =
     (case point of
        AtStop stopping \<Rightarrow>
          (let s2 = (case stopping of None \<Rightarrow> s | Some i \<Rightarrow> stop_settled p i s)
           in case constructor_error p of
                Some err \<Rightarrow> (init_caught err s2, Returned)
              | None \<Rightarrow>
                  (let i = constructed s2;
                       s3 = s2\<lparr>constructed := Suc i, html5QrCodeRef := Some i\<rparr>
                   in if isIOS p
                      then (console_log ''iOS detected: Using direct facingMode approach'' s3,
                            AtStart i (FacingMode ''environment''))
                      else (s3, AtGetCameras i)))
      | AtGetCameras i \<Rightarrow>
          (case getCameras p of
             Inl err \<Rightarrow> (camera_caught s, Returned)
           | Inr None \<Rightarrow> (camera_caught s, Returned)
           | Inr (Some cameras) \<Rightarrow>
               if length cameras = 0 then (camera_caught s, Returned)
               else (let listed = console_log ''Available cameras:'' s;
                         chosen =
                           (case find is_back_camera cameras of
                              Some backCamera \<Rightarrow>
                                console_log (''Selected back camera: '' @
                                  camera_label backCamera) listed
                            | None \<Rightarrow> listed)
                     in (chosen, AtStart i (DeviceId (select_camera cameras)))))
      | AtStart i source \<Rightarrow>
          (case start p i source s of
             Inl err \<Rightarrow>
               (case source of
                  FacingMode m \<Rightarrow> (ios_start_caught s, Returned)
                | DeviceId d \<Rightarrow> (camera_caught s, Returned))
           | Inr s4 \<Rightarrow> (init_finally (camera_ready s4), Returned))
      | Returned \<Rightarrow> (s, Returned))"

text \<open>
  \<open>initializeScanner\<close> run to its end, nothing else running at its awaits: there are at
  most three of them.
\<close>

definition initializeScanner :: "platform \<Rightarrow> component \<Rightarrow> component" where
  "initializeScanner p s0 =
     (case init_begin s0 of
        (s1, at1) \<Rightarrow>
          (case init_resume p at1 s1 of
             (s2, at2) \<Rightarrow>
               (case init_resume p at2 s2 of
                  (s3, at3) \<Rightarrow> fst (init_resume p at3 s3))))"

text \<open>\<open>toggleCamera\<close>, run to its end.\<close>

definition toggleCamera :: "platform \<Rightarrow> component \<Rightarrow> component" where
  "toggleCamera p s =
     (if isCameraActive s
      then (stopScanner p s)\<lparr>isCameraActive := False, scanningTips := [], showGuides := False\<rparr>
      else s\<lparr>isCameraActive := True\<rparr>)"

text \<open>
  The states of the adapter, read off the component: loading, failed with a message,
  scanning with the current instance, or idle.
\<close>

datatype phase = Idle | Initializing | Active | Failed

definition phase_of :: "component \<Rightarrow> phase" where
  "phase_of s =
     (if isLoading s then Initializing
      else if error s \<noteq> [] then Failed
      else case html5QrCodeRef s of
             None \<Rightarrow> Idle
           | Some i \<Rightarrow> if List.member (scanning s) i then Active else Idle)"

text \<open>
  At most one session runs, and it is the session of the instance the component refers
  to.
\<close>

definition single_session :: "component \<Rightarrow> bool" where
  "single_session s =
     (case html5QrCodeRef s of
        None \<Rightarrow> scanning s = []
      | Some i \<Rightarrow> scanning s = [] \<or> scanning s = [i])"

text \<open>The component as it is mounted: the initial values of its state, nothing constructed.\<close>

definition mounted :: component where
  "mounted =
     \<lparr>error = [], isCameraActive = False, isLoading = False, scanningTips = [],
      showGuides = False, html5QrCodeRef = None, constructed = 0, scanning = [],
      calls = [], detected = [], guides_timer = False, console = []\<rparr>"

section \<open>Concrete inputs\<close>

text \<open>
  A network whose first three attempts fail, once by timeout, once without a response and
  once with status 503, and whose fourth attempt answers.
\<close>

definition flaky :: network where
  "flaky i =
     (if i < 3
      then Inl \<lparr>code = (if i = 0 then Some ''ECONNABORTED''
                         else if i = 1 then Some ''ERR_NETWORK''
                         else Some ''ERR_BAD_RESPONSE''),
                response = (if i = 2 then Some \<lparr>status = 503, data = ''''\<rparr> else None),
                message = ''failed'',
                config = Some \<lparr>req_method = GET, url = '''', payload = None, retryCount = None\<rparr>\<rparr>
      else Inr \<lparr>status = 200, data = ''[]''\<rparr>)"

text \<open>A server that never answers within the timeout.\<close>

definition unresponsive :: network where
  "unresponsive i =
     Inl \<lparr>code = Some ''ECONNABORTED'', response = None,
          message = ''timeout of 5000ms exceeded'',
          config = Some \<lparr>req_method = GET, url = '''', payload = None, retryCount = None\<rparr>\<rparr>"

text \<open>An error raised before any request existed.\<close>

definition setup_error :: axios_error where
  "setup_error =
     \<lparr>code = None, response = None, message = ''Invalid URL'', config = None\<rparr>"

text \<open>
  A runtime for closed terms whose evaluation converts no string to a number and no
  number to a string: its conversions are never called there.
\<close>

definition no_conversion :: runtime where
  "no_conversion = \<lparr>StringToNumber = (\<lambda>s. NaN), NumberToString = (\<lambda>n. [])\<rparr>"

text \<open>An item as the server may return it.\<close>

definition priced_food :: InventoryItem where
  "priced_food =
     \<lparr>item_id = Some ''1'', barcode = None, name = None, description = None,
      quantity = None, price = Some (Fin 10), category = Some ''food'',
      expiryDate = None, photoURL = None\<rparr>"

text \<open>An item whose name is the empty string.\<close>

definition unnamed :: InventoryItem where
  "unnamed =
     \<lparr>item_id = Some ''1'', barcode = None, name = Some '''', description = None,
      quantity = None, price = None, category = None,
      expiryDate = None, photoURL = None\<rparr>"

text \<open>A catalog that knows the product but has no image of it.\<close>

definition no_image :: "string \<Rightarrow> fetched" where
  "no_image u = Body (JObject [(''status'', JNumber (Fin 1)), (''product'', JObject [])])"

text \<open>A catalog that does not know the product.\<close>

definition not_found :: "string \<Rightarrow> fetched" where
  "not_found u =
     Body (JObject [(''status'', JNumber (Fin 0)), (''status_verbose'', JString ''product not found'')])"

text \<open>
  A component whose camera was just switched on for the first time, and one with a
  session running.
\<close>

definition fresh :: component where
  "fresh =
     \<lparr>error = [], isCameraActive = True, isLoading = False, scanningTips = [],
      showGuides = False, html5QrCodeRef = None, constructed = 0, scanning = [],
      calls = [], detected = [], guides_timer = False, console = []\<rparr>"

definition running :: component where
  "running =
     \<lparr>error = [], isCameraActive = True, isLoading = False,
      scanningTips = ''Camera ready. Position the barcode in the center of the frame.'',
      showGuides = True, html5QrCodeRef = Some 0, constructed = 1, scanning = [0],
      calls = [Start 0 (DeviceId ''cam-1'')], detected = [], guides_timer = True,
      console = []\<rparr>"

text \<open>
  A laptop with a front and a back camera on which every call succeeds, and the same
  laptop when \<open>start\<close> rejects with the given error.
\<close>

definition laptop :: platform where
  "laptop =
     \<lparr>userAgent = ''Mozilla/5.0 (X11; Linux x86_64)'', stop_error = None,
      constructor_error = None,
      getCameras = Inr (Some [\<lparr>camera_id = ''cam-1'', camera_label = ''Front Camera''\<rparr>,
                              \<lparr>camera_id = ''cam-2'', camera_label = ''Back Camera''\<rparr>]),
      start_error = None\<rparr>"

definition start_rejects :: "string \<Rightarrow> platform" where
  "start_rejects error_name' =
     laptop\<lparr>start_error := Some \<lparr>error_name = error_name', error_message = ''rejected''\<rparr>\<rparr>"

text \<open>The same laptop when \<open>stop()\<close> is rejected.\<close>

definition stop_rejects :: platform where
  "stop_rejects =
     laptop\<lparr>stop_error := Some \<lparr>error_name = ''Error'', error_message = ''Cannot stop''\<rparr>\<rparr>"

text \<open>
  Two calls of \<open>initializeScanner\<close> on the laptop, the second entering while the first
  awaits \<open>getCameras()\<close>. The first call finds nothing to stop and constructs instance 0.
  The second calls \<open>stop()\<close> on instance 0, which has no session yet and is rejected,
  and constructs instance 1. Then the first call goes on to its end, and then the second.
\<close>

definition interleaved :: component where
  "interleaved =
     (case init_begin fresh of (a0, first0) \<Rightarrow>
      case init_resume laptop first0 a0 of (a1, first1) \<Rightarrow>
      case init_begin a1 of (b0, second0) \<Rightarrow>
      case init_resume stop_rejects second0 b0 of (b1, second1) \<Rightarrow>
      case init_resume laptop first1 b1 of (a2, first2) \<Rightarrow>
      case init_resume laptop first2 a2 of (a3, first3) \<Rightarrow>
      case init_resume laptop second1 a3 of (b2, second2) \<Rightarrow>
      case init_resume laptop second2 b2 of (b3, second3) \<Rightarrow> b3)"

section \<open>Properties of the HTTP access layer\<close>

lemma api_answered: "net n = Inr r \<Longrightarrow> api net n cfg = (Inr r, [Request cfg])"
  by (subst api.simps) (simp add: dispatch_def)

lemma api_retry:
  assumes "request_failed (net n)" and "count_of cfg < MAX_RETRIES"
  shows "api net n cfg =
    (fst (api net (Suc n) (cfg\<lparr>retryCount := Some (count_of cfg + 1)\<rparr>)),
     Request cfg # Wait RETRY_DELAY #
       snd (api net (Suc n) (cfg\<lparr>retryCount := Some (count_of cfg + 1)\<rparr>)))"
  using assms
  by (subst api.simps)
     (auto simp: dispatch_def on_rejected_def request_failed_def count_of_def Let_def
      split: sum.splits option.splits prod.splits)

lemma api_exhausted:
  assumes "net n = Inl e" and "config e \<noteq> None" and "\<not> count_of cfg < MAX_RETRIES"
  shows "api net n cfg =
    (Inl (e\<lparr>config := Some (cfg\<lparr>retryCount := Some (count_of cfg)\<rparr>),
            message := (if code e = Some ''ECONNABORTED''
               then ''Request timed out. Please check if the server is running.''
               else if response e = None
               then ''Network error. Please check your connection and if the server is running.''
               else message e)\<rparr>), [Request cfg])"
  using assms
  by (subst api.simps)
     (auto simp: dispatch_def on_rejected_def count_of_def Let_def
      split: sum.splits option.splits)

lemma api_no_config:
  assumes "net n = Inl e" and "config e = None"
  shows "api net n cfg = (Inl e, [Request cfg])"
  using assms
  by (subst api.simps) (auto simp: dispatch_def on_rejected_def split: sum.splits option.splits)

lemma count_of_bump [simp]: "count_of (cfg\<lparr>retryCount := Some c\<rparr>) = c"
  by (simp add: count_of_def)

lemma api_trace_shape:
  "attempts (snd (api net n cfg)) \<le> Suc (MAX_RETRIES - count_of cfg) \<and>
   0 < attempts (snd (api net n cfg)) \<and>
   delays (snd (api net n cfg)) = replicate (attempts (snd (api net n cfg)) - 1) RETRY_DELAY"
proof (induction "MAX_RETRIES - count_of cfg" arbitrary: n cfg)
  case 0
  show ?case
  proof (cases "net n")
    case (Inr r)
    then show ?thesis by (simp add: api_answered)
  next
    case (Inl e)
    show ?thesis
    proof (cases "config e")
      case None
      with Inl show ?thesis by (simp add: api_no_config)
    next
      case (Some c)
      with Inl 0 show ?thesis by (simp add: api_exhausted)
    qed
  qed
next
  case (Suc m)
  show ?case
  proof (cases "net n")
    case (Inr r)
    then show ?thesis by (simp add: api_answered)
  next
    case (Inl e)
    show ?thesis
    proof (cases "config e")
      case None
      with Inl show ?thesis by (simp add: api_no_config)
    next
      case (Some c)
      let ?cfg' = "cfg\<lparr>retryCount := Some (count_of cfg + 1)\<rparr>"
      from Suc.hyps(2) have lt: "count_of cfg < MAX_RETRIES" by simp
      from Inl Some have rf: "request_failed (net n)" by (simp add: request_failed_def)
      from Suc.hyps(2) have "m = MAX_RETRIES - count_of ?cfg'" by simp
      from Suc.hyps(1) [OF this, of "Suc n"] Suc.hyps(2) show ?thesis
        by (cases "attempts (snd (api net (Suc n) ?cfg'))")
           (auto simp: api_retry [of net n cfg, OF rf lt])
    qed
  qed
qed

lemma api_succeeds_after:
  assumes "count_of cfg + j \<le> MAX_RETRIES"
    and "\<forall>i<j. request_failed (net (n + i))"
    and "net (n + j) = Inr r"
  shows "fst (api net n cfg) = Inr r \<and> attempts (snd (api net n cfg)) = Suc j"
  using assms
proof (induction j arbitrary: n cfg)
  case 0
  then show ?case by (simp add: api_answered)
next
  case (Suc j)
  let ?cfg' = "cfg\<lparr>retryCount := Some (count_of cfg + 1)\<rparr>"
  from Suc.prems(2) have rf: "request_failed (net n)" by force
  from Suc.prems(1) have lt: "count_of cfg < MAX_RETRIES" by simp
  have a: "count_of ?cfg' + j \<le> MAX_RETRIES" using Suc.prems(1) by simp
  have b: "\<forall>i<j. request_failed (net (Suc n + i))"
    using Suc.prems(2) by (metis Suc_less_eq add_Suc_shift)
  have c: "net (Suc n + j) = Inr r" using Suc.prems(3) by simp
  from Suc.IH [OF a b c] show ?case
    by (auto simp: api_retry [of net n cfg, OF rf lt])
qed

lemma api_fails_after:
  assumes "count_of cfg + j = MAX_RETRIES"
    and "\<forall>i\<le>j. request_failed (net (n + i))"
    and "net (n + j) = Inl e"
  shows "\<exists>err. fst (api net n cfg) = Inl err \<and>
           code err = code e \<and> response err = response e \<and>
           message err = (if code e = Some ''ECONNABORTED''
               then ''Request timed out. Please check if the server is running.''
               else if response e = None
               then ''Network error. Please check your connection and if the server is running.''
               else message e) \<and>
           attempts (snd (api net n cfg)) = Suc j"
  using assms
proof (induction j arbitrary: n cfg)
  case 0
  then have "config e \<noteq> None" by (simp add: request_failed_def)
  with 0 show ?case by (simp add: api_exhausted)
next
  case (Suc j)
  let ?cfg' = "cfg\<lparr>retryCount := Some (count_of cfg + 1)\<rparr>"
  from Suc.prems(2) have rf: "request_failed (net n)" by force
  from Suc.prems(1) have lt: "count_of cfg < MAX_RETRIES" by simp
  have a: "count_of ?cfg' + j = MAX_RETRIES" using Suc.prems(1) by simp
  have b: "\<forall>i\<le>j. request_failed (net (Suc n + i))"
    using Suc.prems(2) by (metis Suc_le_mono add_Suc_shift)
  have c: "net (Suc n + j) = Inl e" using Suc.prems(3) by simp
  from Suc.IH [OF a b c] show ?case
    by (auto simp: api_retry [of net n cfg, OF rf lt])
qed

lemma api_retried:
  assumes "count_of cfg + j \<le> MAX_RETRIES"
    and "\<forall>i<j. request_failed (net (n + i))"
  shows "Suc j \<le> attempts (snd (api net n cfg))"
  using assms
proof (induction j arbitrary: n cfg)
  case 0
  then show ?case using api_trace_shape [of net n cfg] by simp
next
  case (Suc j)
  let ?cfg' = "cfg\<lparr>retryCount := Some (count_of cfg + 1)\<rparr>"
  from Suc.prems(2) have rf: "request_failed (net n)" by force
  from Suc.prems(1) have lt: "count_of cfg < MAX_RETRIES" by simp
  have a: "count_of ?cfg' + j \<le> MAX_RETRIES" using Suc.prems(1) by simp
  have b: "\<forall>i<j. request_failed (net (Suc n + i))"
    using Suc.prems(2) by (metis Suc_less_eq add_Suc_shift)
  from Suc.IH [OF a b] show ?case
    by (auto simp: api_retry [of net n cfg, OF rf lt])
qed

lemma perform_request:
  "\<exists>m u p. perform net op =
     api net 0 \<lparr>req_method = m, url = u, payload = p, retryCount = None\<rparr>"
  by (cases op)
     (auto simp: getAllItems_def getItemByBarcode_def createItem_def updateItem_def
        deleteItem_def)

lemma perform_first_attempt:
  "\<exists>cfg. count_of cfg = 0 \<and> perform net op = api net 0 cfg"
proof -
  obtain m u p where
    "perform net op = api net 0 \<lparr>req_method = m, url = u, payload = p, retryCount = None\<rparr>"
    using perform_request by blast
  moreover have "count_of \<lparr>req_method = m, url = u, payload = p, retryCount = None\<rparr> = 0"
    by (simp add: count_of_def)
  ultimately show ?thesis by blast
qed

lemma perform_request_of: "perform net op = api net 0 (request_of op)"
  by (cases op)
     (simp_all add: getAllItems_def getItemByBarcode_def createItem_def updateItem_def
        deleteItem_def)

lemma retryCount_request_of: "retryCount (request_of op) = None"
  by (cases op) simp_all

lemma count_of_sent: "retryCount cfg = None \<Longrightarrow> count_of (sent cfg m) = m"
  by (simp add: sent_def count_of_def)

lemma sent_Suc:
  "(sent cfg m)\<lparr>retryCount := Some (Suc m)\<rparr> = sent cfg (Suc m)"
  by (simp add: sent_def)

lemma attempts_retry_trace: "attempts (attempts_before cfg k @ evs) = k + attempts evs"
proof (induction k arbitrary: evs)
  case 0
  show ?case by simp
next
  case (Suc k)
  show ?case using Suc.IH [of "Request (sent cfg k) # Wait 1000 # evs"] by simp
qed

lemma api_trace_answered:
  assumes "retryCount cfg = None" and "m + j \<le> MAX_RETRIES"
    and "\<forall>i<j. request_failed (net (m + i))" and "net (m + j) = Inr r"
  shows "fst (api net m (sent cfg m)) = Inr r \<and>
         attempts_before cfg m @ snd (api net m (sent cfg m)) = retry_trace cfg (m + j)"
  using assms(2-)
proof (induction j arbitrary: m)
  case 0
  then show ?case by (simp add: api_answered retry_trace_def)
next
  case (Suc j)
  from Suc.prems(2) have rf: "request_failed (net m)" by force
  from Suc.prems(1) have lt: "count_of (sent cfg m) < MAX_RETRIES"
    by (simp add: count_of_sent [OF assms(1)])
  have a: "Suc m + j \<le> MAX_RETRIES" using Suc.prems(1) by simp
  have b: "\<forall>i<j. request_failed (net (Suc m + i))"
    using Suc.prems(2) by (metis Suc_less_eq add_Suc_shift)
  have c: "net (Suc m + j) = Inr r" using Suc.prems(3) by simp
  from Suc.IH [OF a b c] show ?case
    by (simp add: api_retry [of net m "sent cfg m", OF rf lt] count_of_sent [OF assms(1)]
        sent_Suc RETRY_DELAY_def)
qed

lemma api_trace_run:
  assumes "retryCount cfg = None" and "d = MAX_RETRIES - m" and "m \<le> MAX_RETRIES"
  shows "\<exists>j. m + j \<le> MAX_RETRIES \<and>
           attempts_before cfg m @ snd (api net m (sent cfg m)) = retry_trace cfg (m + j)"
  using assms(2-)
proof (induction d arbitrary: m)
  case 0
  then have m: "\<not> count_of (sent cfg m) < MAX_RETRIES"
    by (simp add: count_of_sent [OF assms(1)])
  have "snd (api net m (sent cfg m)) = [Request (sent cfg m)]"
  proof (cases "net m")
    case (Inr r)
    then show ?thesis by (simp add: api_answered)
  next
    case (Inl e)
    show ?thesis
    proof (cases "config e")
      case None
      with Inl show ?thesis by (simp add: api_no_config)
    next
      case (Some c)
      with Inl m show ?thesis by (simp add: api_exhausted)
    qed
  qed
  then have "attempts_before cfg m @ snd (api net m (sent cfg m)) = retry_trace cfg (m + 0)"
    by (simp add: retry_trace_def)
  then show ?case by (metis add.right_neutral "0.prems"(2))
next
  case (Suc d)
  then have lt: "count_of (sent cfg m) < MAX_RETRIES"
    by (simp add: count_of_sent [OF assms(1)])
  show ?case
  proof (cases "request_failed (net m)")
    case False
    have "snd (api net m (sent cfg m)) = [Request (sent cfg m)]"
    proof (cases "net m")
      case (Inr r)
      then show ?thesis by (simp add: api_answered)
    next
      case (Inl e)
      with False have "config e = None" by (simp add: request_failed_def)
      with Inl show ?thesis by (simp add: api_no_config)
    qed
    then have "attempts_before cfg m @ snd (api net m (sent cfg m)) = retry_trace cfg (m + 0)"
      by (simp add: retry_trace_def)
    then show ?thesis by (metis add.right_neutral Suc.prems(2))
  next
    case True
    from Suc.prems have "d = MAX_RETRIES - Suc m" and "Suc m \<le> MAX_RETRIES" by simp_all
    from Suc.IH [OF this] obtain j where j: "Suc m + j \<le> MAX_RETRIES"
      and t: "attempts_before cfg (Suc m) @ snd (api net (Suc m) (sent cfg (Suc m))) =
              retry_trace cfg (Suc m + j)" by blast
    have "m + Suc j \<le> MAX_RETRIES" using j by simp
    moreover have "attempts_before cfg m @ snd (api net m (sent cfg m)) =
        retry_trace cfg (m + Suc j)"
      using t
      by (simp add: api_retry [of net m "sent cfg m", OF True lt] count_of_sent [OF assms(1)]
          sent_Suc RETRY_DELAY_def)
    ultimately show ?thesis by blast
  qed
qed

text \<open>
  Claim C1. Whatever the operation and whatever the network does, the run of an operation
  is the run of its own request retried until some attempt \<open>j \<le> 3\<close>: every attempt sends
  the method, url and payload of the operation, 1000 ms are waited after each attempt but
  the last, and there are at most 4 attempts. As long as the attempts made so far have
  all failed as requests, for whatever cause, and fewer than 4 were made, the next
  attempt is made; and when attempt \<open>k\<close> (counted from 0, \<open>k \<le> 3\<close>) is the first to
  answer, the operation returns that response, no error, after exactly the attempts
  \<open>0, \<dots>, k\<close>.
\<close>

theorem retry_policy:
  "(\<exists>j\<le>3. snd (perform net op) = retry_trace (request_of op) j) \<and>
   attempts (snd (perform net op)) \<le> 4 \<and>
   (\<forall>k\<le>3. (\<forall>i<k. request_failed (net i)) \<longrightarrow>
      (\<exists>j. k \<le> j \<and> j \<le> 3 \<and> snd (perform net op) = retry_trace (request_of op) j) \<and>
      (\<forall>r. net k = Inr r \<longrightarrow>
         perform net op = (Inr r, retry_trace (request_of op) k)))"
proof -
  let ?cfg = "request_of op"
  have none: "retryCount ?cfg = None" by (rule retryCount_request_of)
  have p: "perform net op = api net 0 (sent ?cfg 0)"
    by (simp add: perform_request_of sent_def)
  obtain j where j: "j \<le> 3" and t: "snd (perform net op) = retry_trace ?cfg j"
    using api_trace_run [OF none refl, of 0 net] by (auto simp: p MAX_RETRIES_def)
  have n: "attempts (snd (perform net op)) = j + 1"
    using attempts_retry_trace [of ?cfg j "[Request (sent ?cfg j)]"]
    by (simp add: t retry_trace_def)
  have more: "\<exists>j. k \<le> j \<and> j \<le> 3 \<and> snd (perform net op) = retry_trace ?cfg j"
    if "k \<le> 3" and "\<forall>i<k. request_failed (net i)" for k
  proof -
    from perform_first_attempt [of net op] obtain c where
      "count_of c = 0" and "perform net op = api net 0 c" by blast
    with api_retried [of c k net 0] that have "Suc k \<le> attempts (snd (perform net op))"
      by (simp add: MAX_RETRIES_def)
    with n have "k \<le> j" by simp
    with j t show ?thesis by blast
  qed
  have answered: "perform net op = (Inr r, retry_trace ?cfg k)"
    if "k \<le> 3" and "\<forall>i<k. request_failed (net i)" and "net k = Inr r" for k r
    using api_trace_answered [OF none, of 0 k net r] that
    by (simp add: p MAX_RETRIES_def prod_eq_iff)
  from j t n more answered show ?thesis by (intro conjI allI impI) auto
qed

theorem retry_policy_witness:
  "perform flaky (DeleteItem ''42'') =
     (Inr \<lparr>status = 200, data = ''[]''\<rparr>,
      [Request \<lparr>req_method = DELETE, url = ''/42'', payload = None, retryCount = None\<rparr>,
       Wait 1000,
       Request \<lparr>req_method = DELETE, url = ''/42'', payload = None, retryCount = Some 1\<rparr>,
       Wait 1000,
       Request \<lparr>req_method = DELETE, url = ''/42'', payload = None, retryCount = Some 2\<rparr>,
       Wait 1000,
       Request \<lparr>req_method = DELETE, url = ''/42'', payload = None, retryCount = Some 3\<rparr>])"
proof -
  have f: "\<forall>i<3. request_failed (flaky i)"
    by (simp add: flaky_def request_failed_def)
  have a: "flaky 3 = Inr \<lparr>status = 200, data = ''[]''\<rparr>"
    by (simp add: flaky_def)
  have k: "(3::nat) \<le> 3" by simp
  have "perform flaky (DeleteItem ''42'') =
      (Inr \<lparr>status = 200, data = ''[]''\<rparr>, retry_trace (request_of (DeleteItem ''42'')) 3)"
    using retry_policy [of flaky "DeleteItem ''42''"] k f a by blast
  then show ?thesis
    by (simp add: retry_trace_def sent_def numeral_3_eq_3)
qed

text \<open>
  Claim C2. When all 4 attempts of an operation fail as requests, the operation makes
  exactly 4 attempts and rejects with one error: the error of the last attempt, with its
  code and response untouched and its message replaced by the timed-out message when the
  code is \<open>ECONNABORTED\<close>, else by the connectivity message when there is no response,
  else left as it was. The two replacement messages differ.
\<close>

theorem exhausted_error_normalized:
  assumes "\<forall>i\<le>3. request_failed (net i)" and "net 3 = Inl e"
  shows "(\<exists>err. fst (perform net op) = Inl err \<and>
           attempts (snd (perform net op)) = 4 \<and>
           code err = code e \<and> response err = response e \<and>
           message err = (if code e = Some ''ECONNABORTED''
               then ''Request timed out. Please check if the server is running.''
               else if response e = None
               then ''Network error. Please check your connection and if the server is running.''
               else message e)) \<and>
         ''Request timed out. Please check if the server is running.'' \<noteq>
         ''Network error. Please check your connection and if the server is running.''"
proof -
  obtain cfg where c0: "count_of cfg = 0" and p: "perform net op = api net 0 cfg"
    using perform_first_attempt by blast
  have "\<forall>i\<le>3. request_failed (net (0 + i))" and "net (0 + 3) = Inl e"
    using assms by simp_all
  with api_fails_after [of cfg 3 net 0 e] c0 show ?thesis
    unfolding p by (fastforce simp: MAX_RETRIES_def)
qed

theorem exhausted_error_normalized_witness:
  "\<exists>err. fst (perform unresponsive (DeleteItem ''42'')) = Inl err \<and>
         attempts (snd (perform unresponsive (DeleteItem ''42''))) = 4 \<and>
         message err = ''Request timed out. Please check if the server is running.''"
proof -
  have "\<forall>i\<le>3. request_failed (unresponsive i)"
    by (simp add: unresponsive_def request_failed_def)
  moreover have "unresponsive 3 =
      Inl \<lparr>code = Some ''ECONNABORTED'', response = None,
           message = ''timeout of 5000ms exceeded'',
           config = Some \<lparr>req_method = GET, url = [], payload = None, retryCount = None\<rparr>\<rparr>"
    by (simp add: unresponsive_def)
  ultimately show ?thesis
    using exhausted_error_normalized [of unresponsive _ "DeleteItem ''42''"] by fastforce
qed

text \<open>
  Claim C10. An error that carries no request configuration is rejected by the
  interceptor as it is: no retry, no delay, its message untouched. An attempt failing
  with such an error ends the operation at once, with that error.
\<close>

theorem no_config_rejected_immediately:
  assumes "config err = None"
  shows "on_rejected err = Reject err \<and>
         (\<forall>net n cfg. net n = Inl err \<longrightarrow> api net n cfg = (Inl err, [Request cfg]))"
  using assms by (simp add: on_rejected_def api_no_config)

theorem no_config_rejected_immediately_witness:
  "on_rejected setup_error = Reject setup_error \<and>
   api (\<lambda>i. Inl setup_error) 0
     \<lparr>req_method = GET, url = '''', payload = None, retryCount = None\<rparr> =
   (Inl setup_error,
    [Request \<lparr>req_method = GET, url = '''', payload = None, retryCount = None\<rparr>])"
  using no_config_rejected_immediately [of setup_error]
  by (simp add: setup_error_def)

section \<open>Properties of the item forms\<close>

lemma foldl_entries_map_of:
  assumes step: "\<And>d k v. step d (k, v) =
      (case field k v of None \<Rightarrow> d | Some w \<Rightarrow> AList.update k w d)"
    and "distinct (map fst entries)"
  shows "map_of (foldl step acc entries) k =
     (case map_of entries k of
        None \<Rightarrow> map_of acc k
      | Some v \<Rightarrow> (case field k v of None \<Rightarrow> map_of acc k | Some w \<Rightarrow> Some w))"
  using assms(2)
proof (induction entries arbitrary: acc)
  case Nil
  then show ?case by simp
next
  case (Cons e entries)
  obtain k0 v0 where e: "e = (k0, v0)" by (cases e)
  from Cons.prems have d: "distinct (map fst entries)" and n: "k0 \<notin> fst ` set entries"
    by (simp_all add: e)
  from n have m: "map_of entries k0 = None" by (simp add: map_of_eq_None_iff)
  show ?case
    using Cons.IH [OF d, of "step acc (k0, v0)"] m
    by (auto simp: e step update_conv' split: option.splits)
qed

lemma add_entry_field:
  "add_entry rt d (k, v) =
     (case add_field rt k v of None \<Rightarrow> d | Some w \<Rightarrow> AList.update k w d)"
  by (simp add: add_field_def Let_def)

lemma edit_entry_field:
  "edit_entry rt item d (k, v) =
     (case edit_field rt item k v of None \<Rightarrow> d | Some w \<Rightarrow> AList.update k w d)"
  by (simp add: edit_field_def Let_def)

lemma add_dataToSend_map_of:
  assumes "distinct (map fst formData)"
  shows "map_of (AddItemForm_dataToSend rt formData) k =
     (case map_of formData k of None \<Rightarrow> None | Some v \<Rightarrow> add_field rt k v)"
  unfolding AddItemForm_dataToSend_def
  using foldl_entries_map_of [of "add_entry rt" "add_field rt", OF add_entry_field assms, of "[]" k]
  by (simp split: option.splits)

lemma edit_dataToSend_map_of:
  assumes "distinct (map fst formData)"
  shows "map_of (EditItemForm_dataToSend rt item formData) k =
     (case map_of formData k of None \<Rightarrow> None | Some v \<Rightarrow> edit_field rt item k v)"
  unfolding EditItemForm_dataToSend_def
  using foldl_entries_map_of [of "edit_entry rt item" "edit_field rt item",
      OF edit_entry_field assms, of "[]" k]
  by (simp split: option.splits)

lemma add_field_eq:
  "add_field rt k v =
     (if v = Str '''' \<or> v = Undefined \<or> v = Null then None
      else if k = ''price'' \<or> k = ''quantity''
      then (case js_Number rt v of
              Fin q \<Rightarrow> if 0 < q then Some (Num (Fin q)) else None
            | PosInfinity \<Rightarrow> Some (Num PosInfinity)
            | NegInfinity \<Rightarrow> None
            | NaN \<Rightarrow> None)
      else Some (Str (js_String rt v)))"
  by (auto simp: add_field_def strict_eq_def isNaN_def Let_def split: jsnum.splits)

text \<open>
  Claim C3, as the code has it. In creation mode, for a working copy (an object: its keys
  are distinct), a key is in the change-set only if it is in the working copy; a field
  whose value is the empty string, \<open>undefined\<close> or \<open>null\<close> is omitted; \<open>quantity\<close> and
  \<open>price\<close> are kept, as numbers, exactly when their value converted to a number is greater
  than zero, which positive infinity is, and are omitted otherwise (zero, negative,
  \<open>NaN\<close>); every other field is kept, converted to a string.
\<close>

theorem create_change_set:
  assumes "distinct (map fst formData)"
  shows "map_of (AddItemForm_dataToSend rt formData) k =
     (case map_of formData k of
        None \<Rightarrow> None
      | Some v \<Rightarrow>
          if v = Str '''' \<or> v = Undefined \<or> v = Null then None
          else if k = ''price'' \<or> k = ''quantity''
          then (case js_Number rt v of
                  Fin q \<Rightarrow> if 0 < q then Some (Num (Fin q)) else None
                | PosInfinity \<Rightarrow> Some (Num PosInfinity)
                | NegInfinity \<Rightarrow> None
                | NaN \<Rightarrow> None)
          else Some (Str (js_String rt v)))"
  by (simp add: add_dataToSend_map_of [OF assms] add_field_eq split: option.splits)

text \<open>
  The input \<open>{name: "", price: 0, quantity: 5}\<close> yields exactly \<open>{quantity: 5}\<close>.
\<close>

theorem create_change_set_witness:
  "AddItemForm_dataToSend no_conversion
     [(''name'', Str ''''), (''price'', Num (Fin 0)), (''quantity'', Num (Fin 5))] =
     [(''quantity'', Num (Fin 5))] \<and>
   map_of (AddItemForm_dataToSend no_conversion
     [(''name'', Str ''''), (''price'', Num (Fin 0)), (''quantity'', Num (Fin 5))]) ''name'' = None \<and>
   map_of (AddItemForm_dataToSend no_conversion
     [(''name'', Str ''''), (''price'', Num (Fin 0)), (''quantity'', Num (Fin 5))]) ''price'' = None \<and>
   map_of (AddItemForm_dataToSend no_conversion
     [(''name'', Str ''''), (''price'', Num (Fin 0)), (''quantity'', Num (Fin 5))]) ''quantity'' =
     Some (Num (Fin 5))"
proof -
  let ?fd = "[(''name'', Str ''''), (''price'', Num (Fin 0)), (''quantity'', Num (Fin 5))]"
  have d: "distinct (map fst ?fd)" by simp
  have "AddItemForm_dataToSend no_conversion ?fd = [(''quantity'', Num (Fin 5))]"
    by (simp add: AddItemForm_dataToSend_def strict_eq_def isNaN_def)
  moreover note create_change_set [OF d, of no_conversion "''name''"]
    create_change_set [OF d, of no_conversion "''price''"]
    create_change_set [OF d, of no_conversion "''quantity''"]
  ultimately show ?thesis by simp
qed

text \<open>
  Claim C3 as stated fails: a quantity of positive infinity is not a finite number, and
  the change-set keeps it.
\<close>

theorem create_keeps_infinity:
  "AddItemForm_dataToSend no_conversion [(''quantity'', Num PosInfinity)] =
     [(''quantity'', Num PosInfinity)]"
  by (simp add: AddItemForm_dataToSend_def strict_eq_def isNaN_def)

text \<open>
  In edit mode a field whose working value is the empty string is sent as
  \<open>undefined\<close> when the original has a value, and is omitted when it has none. This holds
  for every field, \<open>quantity\<close> and \<open>price\<close> included.
\<close>

lemma edit_clear_marker:
  assumes "distinct (map fst formData)" and "map_of formData k = Some (Str '''')"
  shows "map_of (EditItemForm_dataToSend rt item formData) k =
     (if item_get item k = Undefined then None else Some Undefined)"
  using assms(2)
  by (auto simp: edit_dataToSend_map_of [OF assms(1)] edit_field_def strict_eq_def Let_def)

text \<open>
  The original \<open>{price: 10, category: "food"}\<close> (with an id) and the category input
  emptied: the change-set is exactly \<open>{category: undefined}\<close>.
\<close>

lemma edit_category_cleared:
  "EditItemForm_handleSubmit no_conversion priced_food
     (handleChange no_conversion ''category'' '''' (EditItemForm_formData priced_food)) =
     Update ''1'' [(''category'', Undefined)]"
  by (simp add: EditItemForm_handleSubmit_def EditItemForm_dataToSend_def
      EditItemForm_formData_def handleChange_def priced_food_def strict_eq_def item_get_def
      of_string_def of_number_def or_empty_def)

text \<open>
  Claim C4 at the price input of the same item emptied. \<open>handleChange\<close> stores
  \<open>undefined\<close>, not the empty string, for an emptied numeric input; \<open>handleSubmit\<close> then
  skips the field, the change-set is empty, and the form refuses to save. The claim asks
  for the change-set \<open>{price: undefined}\<close>.
\<close>

theorem edit_numeric_clear_lost:
  "handleChange no_conversion ''price'' '''' (EditItemForm_formData priced_food) =
     [(''barcode'', Str ''''), (''name'', Str ''''), (''description'', Str ''''),
      (''category'', Str ''food''), (''quantity'', Undefined), (''price'', Undefined),
      (''expiryDate'', Str ''''), (''photoURL'', Str '''')] \<and>
   EditItemForm_dataToSend no_conversion priced_food
     (handleChange no_conversion ''price'' '''' (EditItemForm_formData priced_food)) = [] \<and>
   EditItemForm_handleSubmit no_conversion priced_food
     (handleChange no_conversion ''price'' '''' (EditItemForm_formData priced_food)) =
     Refused ''No changes were made to the item''"
  by (simp add: EditItemForm_handleSubmit_def EditItemForm_dataToSend_def
      EditItemForm_formData_def handleChange_def priced_food_def strict_eq_def item_get_def
      of_string_def of_number_def or_empty_def)
lemma edit_field_same_string:
  assumes "k \<noteq> ''price''" and "k \<noteq> ''quantity''" and "s \<noteq> []"
    and "item_get item k = Str s"
  shows "edit_field rt item k (Str s) = None"
  using assms by (simp add: edit_field_def strict_eq_def)

lemma edit_field_same_number:
  assumes "k = ''price'' \<or> k = ''quantity''" and "v \<noteq> Str []"
    and "js_Number rt v = n" and "n \<noteq> NaN" and "item_get item k = Num n"
  shows "edit_field rt item k v = None"
  using assms by (auto simp: edit_field_def strict_eq_def Let_def)

lemma edit_entry_string_unedited:
  assumes "k \<noteq> ''price''" and "k \<noteq> ''quantity''"
    and "item_get item k = of_string p" and "p \<noteq> Some []"
  shows "edit_entry rt item d (k, or_empty p) = d"
  using assms by (cases p) (simp_all add: strict_eq_def of_string_def or_empty_def)

lemma edit_entry_number_unedited:
  assumes "k = ''price'' \<or> k = ''quantity''"
    and "item_get item k = of_number p" and "p \<noteq> Some NaN"
  shows "edit_entry rt item d (k, of_number p) = d"
  using assms by (cases p) (auto simp: strict_eq_def of_number_def Let_def)

lemma unedited_empty:
  assumes "no_blank item"
  shows "EditItemForm_dataToSend rt item (EditItemForm_formData item) = []"
proof -
  have s: "edit_entry rt item [] (''barcode'', or_empty (barcode item)) = []"
      "edit_entry rt item [] (''name'', or_empty (name item)) = []"
      "edit_entry rt item [] (''description'', or_empty (description item)) = []"
      "edit_entry rt item [] (''category'', or_empty (category item)) = []"
      "edit_entry rt item [] (''expiryDate'', or_empty (expiryDate item)) = []"
      "edit_entry rt item [] (''photoURL'', or_empty (photoURL item)) = []"
    using assms
    by (simp_all add: edit_entry_string_unedited item_get_def no_blank_def
        del: edit_entry.simps)
  have n: "edit_entry rt item [] (''quantity'', of_number (quantity item)) = []"
      "edit_entry rt item [] (''price'', of_number (price item)) = []"
    using assms
    by (simp_all add: edit_entry_number_unedited item_get_def no_blank_def
        del: edit_entry.simps)
  show ?thesis
    by (simp only: EditItemForm_dataToSend_def EditItemForm_formData_def foldl.simps s n)
qed

text \<open>
  What \<open>EditItemForm.handleSubmit\<close> does with unchanged fields. For a working copy with
  distinct keys, a field other than \<open>quantity\<close> and \<open>price\<close> whose working value is a
  non-empty string equal to the original's is omitted from the change-set, and so is
  \<open>quantity\<close> or \<open>price\<close> when its working value, not the empty string, converts to the
  number the original has, \<open>NaN\<close> apart. With an empty change-set \<open>updateItem\<close> is never
  called. For an item with an id, \<open>handleSubmit\<close> refuses with "No changes were made to
  the item" exactly when the change-set is empty; and it is empty for the unedited form
  of an item none of whose string properties is the empty string and none of whose
  numbers is \<open>NaN\<close>.
\<close>

lemma edit_unchanged_refused:
  "(distinct (map fst formData) \<longrightarrow>
      (\<forall>s. k \<noteq> ''price'' \<and> k \<noteq> ''quantity'' \<and> s \<noteq> [] \<and>
           map_of formData k = Some (Str s) \<and> item_get item k = Str s \<longrightarrow>
           map_of (EditItemForm_dataToSend rt item formData) k = None) \<and>
      (\<forall>v n. (k = ''price'' \<or> k = ''quantity'') \<and> map_of formData k = Some v \<and>
           v \<noteq> Str [] \<and> js_Number rt v = n \<and> n \<noteq> NaN \<and> item_get item k = Num n \<longrightarrow>
           map_of (EditItemForm_dataToSend rt item formData) k = None)) \<and>
   (item_id item = Some ident \<and> ident \<noteq> [] \<longrightarrow>
      EditItemForm_handleSubmit rt item formData =
        (if EditItemForm_dataToSend rt item formData = []
         then Refused ''No changes were made to the item''
         else Update ident (EditItemForm_dataToSend rt item formData)) \<and>
      (no_blank item \<longrightarrow>
         EditItemForm_handleSubmit rt item (EditItemForm_formData item) =
           Refused ''No changes were made to the item'')) \<and>
   (EditItemForm_dataToSend rt item formData = [] \<longrightarrow>
      (\<forall>i d. EditItemForm_handleSubmit rt item formData \<noteq> Update i d))"
proof (intro conjI impI allI)
  fix s
  assume "distinct (map fst formData)"
    and "k \<noteq> ''price'' \<and> k \<noteq> ''quantity'' \<and> s \<noteq> [] \<and>
         map_of formData k = Some (Str s) \<and> item_get item k = Str s"
  then show "map_of (EditItemForm_dataToSend rt item formData) k = None"
    by (simp add: edit_dataToSend_map_of edit_field_same_string del: map_of_eq_Some_iff)
next
  fix v n
  assume "distinct (map fst formData)"
    and "(k = ''price'' \<or> k = ''quantity'') \<and> map_of formData k = Some v \<and>
         v \<noteq> Str [] \<and> js_Number rt v = n \<and> n \<noteq> NaN \<and> item_get item k = Num n"
  then show "map_of (EditItemForm_dataToSend rt item formData) k = None"
    using edit_field_same_number [of k v rt n item]
    by (simp add: edit_dataToSend_map_of del: map_of_eq_Some_iff)
next
  assume "item_id item = Some ident \<and> ident \<noteq> []"
  then show "EditItemForm_handleSubmit rt item formData =
      (if EditItemForm_dataToSend rt item formData = []
       then Refused ''No changes were made to the item''
       else Update ident (EditItemForm_dataToSend rt item formData))"
    by (simp add: EditItemForm_handleSubmit_def Let_def)
next
  assume "item_id item = Some ident \<and> ident \<noteq> []" and "no_blank item"
  then show "EditItemForm_handleSubmit rt item (EditItemForm_formData item) =
         Refused ''No changes were made to the item''"
    by (simp add: EditItemForm_handleSubmit_def Let_def unedited_empty)
next
  fix i d
  assume "EditItemForm_dataToSend rt item formData = []"
  then show "EditItemForm_handleSubmit rt item formData \<noteq> Update i d"
    by (simp add: EditItemForm_handleSubmit_def Let_def split: option.splits)
qed

lemma edit_unchanged_refused_example:
  "map_of (EditItemForm_dataToSend no_conversion priced_food
      (EditItemForm_formData priced_food)) ''price'' = None \<and>
   EditItemForm_handleSubmit no_conversion priced_food (EditItemForm_formData priced_food) =
     Refused ''No changes were made to the item''"
proof -
  note claim = edit_unchanged_refused [of "EditItemForm_formData priced_food" "''price''"
      priced_food no_conversion "''1''"]
  have fd: "EditItemForm_formData priced_food =
     [(''barcode'', Str ''''), (''name'', Str ''''), (''description'', Str ''''),
      (''category'', Str ''food''), (''quantity'', Undefined), (''price'', Num (Fin 10)),
      (''expiryDate'', Str ''''), (''photoURL'', Str '''')]"
    by (simp add: EditItemForm_formData_def priced_food_def or_empty_def of_number_def)
  have keys: "distinct (map fst (EditItemForm_formData priced_food))"
    by (simp add: fd)
  have same: "(''price'' = ''price'' \<or> ''price'' = ''quantity'') \<and>
      map_of (EditItemForm_formData priced_food) ''price'' = Some (Num (Fin 10)) \<and>
      Num (Fin 10) \<noteq> Str [] \<and> js_Number no_conversion (Num (Fin 10)) = Fin 10 \<and>
      Fin 10 \<noteq> NaN \<and> item_get priced_food ''price'' = Num (Fin 10)"
    by (simp add: fd) (simp add: priced_food_def item_get_def of_number_def)
  have ident: "item_id priced_food = Some ''1'' \<and> ''1'' \<noteq> []"
    by (simp add: priced_food_def)
  have plain: "no_blank priced_food"
    by (simp add: priced_food_def no_blank_def)
  from claim [THEN conjunct1, rule_format, OF keys, THEN conjunct2, rule_format, OF same]
  have "map_of (EditItemForm_dataToSend no_conversion priced_food
      (EditItemForm_formData priced_food)) ''price'' = None" .
  moreover from claim [THEN conjunct2, THEN conjunct1, rule_format, OF ident,
      THEN conjunct2, rule_format, OF plain]
  have "EditItemForm_handleSubmit no_conversion priced_food
      (EditItemForm_formData priced_food) = Refused ''No changes were made to the item''" .
  ultimately show ?thesis by (rule conjI)
qed

text \<open>
  Claim C5 at the unedited form of an item whose name is the empty string. Original and
  working copy are identical, yet the change-set is \<open>{name: undefined}\<close>, not empty, and
  \<open>updateItem\<close> is called with it. The claim, and the comments of the code ("Only
  include fields that have been changed from the original item", "If no changes were
  made, show an error"), ask for an empty change-set and the refusal.
\<close>

theorem edit_unedited_submitted:
  "EditItemForm_formData unnamed =
     [(''barcode'', Str ''''), (''name'', Str ''''), (''description'', Str ''''),
      (''category'', Str ''''), (''quantity'', Undefined), (''price'', Undefined),
      (''expiryDate'', Str ''''), (''photoURL'', Str '''')] \<and>
   EditItemForm_dataToSend no_conversion unnamed (EditItemForm_formData unnamed) =
     [(''name'', Undefined)] \<and>
   EditItemForm_handleSubmit no_conversion unnamed (EditItemForm_formData unnamed) =
     Update ''1'' [(''name'', Undefined)]"
  by (simp add: EditItemForm_handleSubmit_def EditItemForm_dataToSend_def
      EditItemForm_formData_def unnamed_def strict_eq_def item_get_def
      of_string_def of_number_def or_empty_def)

section \<open>Properties of the image lookup\<close>

text \<open>
  \<open>getProductImage\<close> returns a value on every input: what the \<open>try\<close> block throws
  becomes \<open>null\<close>, and so does every status other than the number 1.
\<close>

lemma getProductImage_failed:
  assumes "web (''https://world.openfoodfacts.org/api/v0/product/'' @ b @ ''.json'') = Rejected \<or>
           web (''https://world.openfoodfacts.org/api/v0/product/'' @ b @ ''.json'') = Unparsable"
  shows "getProductImage web b = Val JNull"
  using assms by (auto simp: getProductImage_def getProductImage_try_def)

lemma getProductImage_thrown:
  assumes "getProductImage_try web b = Inl e"
  shows "getProductImage web b = Val JNull"
  using assms by (simp add: getProductImage_def)

lemma getProductImage_other_status:
  assumes "web (''https://world.openfoodfacts.org/api/v0/product/'' @ b @ ''.json'') = Body d"
    and "get_prop (Val d) ''status'' \<noteq> Inr (Val (JNumber (Fin 1)))"
  shows "getProductImage web b = Val JNull"
  using assms
  by (auto simp: getProductImage_def getProductImage_try_def split: sum.splits)

lemma getProductImage_status_0:
  "getProductImage not_found ''3017620422003'' = Val JNull"
  by (simp add: getProductImage_def getProductImage_try_def not_found_def)

text \<open>
  A product that was found: the front image when that property is truthy, else the
  property \<open>image_url\<close>, whatever it is.
\<close>

lemma getProductImage_found:
  assumes "web (''https://world.openfoodfacts.org/api/v0/product/'' @ b @ ''.json'') =
             Body (JObject kvs)"
    and "map_of kvs ''status'' = Some (JNumber (Fin 1))"
    and "map_of kvs ''product'' = Some (JObject props)"
  shows "getProductImage web b =
     (case map_of props ''image_front_url'' of
        Some front \<Rightarrow>
          if js_truthy (Val front) then Val front
          else (case map_of props ''image_url'' of None \<Rightarrow> Undef | Some u \<Rightarrow> Val u)
      | None \<Rightarrow> (case map_of props ''image_url'' of None \<Rightarrow> Undef | Some u \<Rightarrow> Val u))"
  using assms
  by (simp add: getProductImage_def getProductImage_try_def split: option.splits)

text \<open>
  Claim C6 at a product that was found and has neither image property: the lookup
  returns \<open>undefined\<close>. The claim, and the return type \<open>Promise<string | null>\<close>, ask
  for \<open>null\<close>.
\<close>

theorem image_lookup_returns_undefined:
  "getProductImage no_image ''3017620422003'' = Undef \<and> Undef \<noteq> Val JNull"
  by (simp add: getProductImage_def getProductImage_try_def no_image_def)

section \<open>Properties of the barcode scanner\<close>

text \<open>
  \<open>initializeScanner\<close> run to its end, written as the one body the source has: the
  \<open>try\<close> with its two branches, the \<open>catch\<close> blocks and the \<open>finally\<close>.
\<close>

lemma initializeScanner_run:
  "initializeScanner p s0 =
     (let s1 = s0\<lparr>isLoading := True, error := [], scanningTips := ''Initializing camera...'',
                  showGuides := False\<rparr>;
          s2 = stopScanner p s1;
          result =
            (case constructor_error p of
               Some err \<Rightarrow>
                 (console_log ''Scanner initialization error:'' s2)
                   \<lparr>error := classify err, isCameraActive := False\<rparr>
             | None \<Rightarrow>
                 (let i = constructed s2;
                      s3 = s2\<lparr>constructed := Suc i, html5QrCodeRef := Some i\<rparr>
                  in if isIOS p
                     then (case start p i (FacingMode ''environment'')
                                  (console_log ''iOS detected: Using direct facingMode approach'' s3) of
                             Inl err \<Rightarrow>
                               (console_log ''Failed to start with environment facingMode:''
                                  (console_log ''iOS detected: Using direct facingMode approach'' s3))
                                 \<lparr>error := ''Failed to initialize camera. Please try again.'',
                                  isCameraActive := False, isLoading := False\<rparr>
                           | Inr s4 \<Rightarrow> camera_ready s4)
                     else (let failed = (\<lambda>s. (console_log ''Camera initialization error:'' s)
                                 \<lparr>error := ''Failed to initialize camera. Please check your camera permissions and try again.'',
                                  isCameraActive := False, isLoading := False\<rparr>)
                           in case getCameras p of
                                Inl err \<Rightarrow> failed s3
                              | Inr None \<Rightarrow> failed s3
                              | Inr (Some cameras) \<Rightarrow>
                                  if length cameras = 0 then failed s3
                                  else (let listed = console_log ''Available cameras:'' s3;
                                            chosen =
                                              (case find is_back_camera cameras of
                                                 Some backCamera \<Rightarrow>
                                                   console_log (''Selected back camera: '' @
                                                        camera_label backCamera) listed
                                               | None \<Rightarrow> listed)
                                        in case start p i (DeviceId (select_camera cameras))
                                                  chosen of
                                             Inl err \<Rightarrow> failed chosen
                                           | Inr s4 \<Rightarrow> camera_ready s4))))
      in result\<lparr>isLoading := False\<rparr>)"
  unfolding initializeScanner_def init_begin_def Let_def stopScanner_def
  apply (simp only: prod.case)
  apply (cases "html5QrCodeRef s0"; cases "constructor_error p"; cases "isIOS p";
         cases "getCameras p"; cases "start_error p")
  apply (simp_all add: init_resume_def init_caught_def ios_start_caught_def camera_caught_def
      init_finally_def start_def Let_def split: option.splits)
  done

lemma stopScanner_single:
  assumes "single_session s" and "scanning s = [] \<or> stop_error p = None"
  shows "scanning (stopScanner p s) = []"
  using assms
  by (auto simp: single_session_def stopScanner_def stop_settled_def console_log_def
      split: option.splits)

lemma stopScanner_constructed: "constructed (stopScanner p s) = constructed s"
  by (simp add: stopScanner_def stop_settled_def console_log_def split: option.splits)

lemma initializeScanner_after_stop:
  assumes "scanning (stopScanner p (s0\<lparr>isLoading := True, error := [],
             scanningTips := ''Initializing camera...'', showGuides := False\<rparr>)) = []"
  shows "scanning (initializeScanner p s0) = [] \<or>
         scanning (initializeScanner p s0) = [constructed s0] \<and>
         html5QrCodeRef (initializeScanner p s0) = Some (constructed s0)"
proof -
  let ?s1 = "s0\<lparr>isLoading := True, error := [],
             scanningTips := ''Initializing camera...'', showGuides := False\<rparr>"
  have c: "constructed (stopScanner p ?s1) = constructed s0"
    by (simp add: stopScanner_constructed)
  show ?thesis
    unfolding initializeScanner_run Let_def
    using assms c
    by (auto simp: start_def camera_ready_def console_log_def
        split: option.splits sum.splits)
qed

lemma initializeScanner_single:
  assumes "single_session s" and "scanning s = [] \<or> stop_error p = None"
  shows "single_session (initializeScanner p s)"
proof -
  let ?s1 = "s\<lparr>isLoading := True, error := [],
             scanningTips := ''Initializing camera...'', showGuides := False\<rparr>"
  have "single_session ?s1" and "scanning ?s1 = [] \<or> stop_error p = None"
    using assms by (simp_all add: single_session_def split: option.splits)
  then have "scanning (stopScanner p ?s1) = []"
    by (rule stopScanner_single)
  from initializeScanner_after_stop [OF this] show ?thesis
    by (auto simp: single_session_def split: option.splits)
qed

lemma initializeScanner_restart:
  assumes "html5QrCodeRef s = Some i" and "scanning s = [i]"
    and "stop_error p = None" and "constructor_error p = None" and "start_error p = None"
    and "isIOS p \<or> (\<exists>c cs. getCameras p = Inr (Some (c # cs)))"
  shows "scanning (initializeScanner p s) = [constructed s] \<and>
         html5QrCodeRef (initializeScanner p s) = Some (constructed s) \<and>
         (\<exists>source. calls (initializeScanner p s) =
            calls s @ [Stop i, Start (constructed s) source])"
  using assms
  unfolding initializeScanner_run Let_def
  by (auto simp: stopScanner_def stop_settled_def start_def camera_ready_def console_log_def
      split: option.splits sum.splits)

text \<open>
  Claim C7, as the code has it, for calls that run to their end with no other call of
  the adapter running at their awaits. Take a component in which at most one session
  runs, that of the instance it refers to, as in the component just mounted, and a
  platform on which the \<open>stop()\<close> of a running session resolves. After
  \<open>initializeScanner\<close>, and after each of the other operations and callbacks of the
  adapter, there is again at most one session, that of the instance referred to. If a
  session was running and the constructor and \<open>start\<close> succeed (on iOS, or with at least
  one camera listed), then after \<open>initializeScanner\<close> exactly one session runs, that of
  the new instance, and the library was called in this order: \<open>stop\<close> on the old
  instance, then \<open>start\<close> on the new one.
\<close>

theorem one_session_at_a_time:
  assumes "single_session s" and "scanning s = [] \<or> stop_error p = None"
  shows "single_session mounted \<and>
    single_session (initializeScanner p s) \<and>
    single_session (stopScanner p s) \<and>
    single_session (toggleCamera p s) \<and>
    single_session (qrCodeSuccessCallback decodedText s) \<and>
    single_session (qrCodeErrorCallback errorMessage s) \<and>
    (\<forall>i. html5QrCodeRef s = Some i \<and> scanning s = [i] \<and>
         constructor_error p = None \<and> start_error p = None \<and>
         (isIOS p \<or> (\<exists>c cs. getCameras p = Inr (Some (c # cs)))) \<longrightarrow>
         scanning (initializeScanner p s) = [constructed s] \<and>
         html5QrCodeRef (initializeScanner p s) = Some (constructed s) \<and>
         (\<exists>source. calls (initializeScanner p s) =
            calls s @ [Stop i, Start (constructed s) source]))"
proof -
  have "single_session mounted"
    by (simp add: single_session_def mounted_def)
  moreover have "single_session (initializeScanner p s)"
    using assms by (rule initializeScanner_single)
  moreover have "single_session (stopScanner p s)"
    using stopScanner_single [OF assms]
    by (simp add: single_session_def split: option.splits)
  moreover have "single_session (toggleCamera p s)"
    using stopScanner_single [OF assms] assms(1)
    by (simp add: toggleCamera_def single_session_def split: option.splits)
  moreover have "single_session (qrCodeSuccessCallback decodedText s)"
    using assms(1)
    by (simp add: qrCodeSuccessCallback_def handleBarcodeDetected_def console_log_def
        single_session_def split: option.splits)
  moreover have "single_session (qrCodeErrorCallback errorMessage s)"
    using assms(1)
    by (simp add: qrCodeErrorCallback_def console_log_def single_session_def
        split: option.splits)
  moreover have "\<forall>i. html5QrCodeRef s = Some i \<and> scanning s = [i] \<and>
         constructor_error p = None \<and> start_error p = None \<and>
         (isIOS p \<or> (\<exists>c cs. getCameras p = Inr (Some (c # cs)))) \<longrightarrow>
         scanning (initializeScanner p s) = [constructed s] \<and>
         html5QrCodeRef (initializeScanner p s) = Some (constructed s) \<and>
         (\<exists>source. calls (initializeScanner p s) =
            calls s @ [Stop i, Start (constructed s) source])"
  proof (intro allI impI)
    fix i
    assume h: "html5QrCodeRef s = Some i \<and> scanning s = [i] \<and>
         constructor_error p = None \<and> start_error p = None \<and>
         (isIOS p \<or> (\<exists>c cs. getCameras p = Inr (Some (c # cs))))"
    with assms(2) have "stop_error p = None" by auto
    with h initializeScanner_restart [of s i p]
    show "scanning (initializeScanner p s) = [constructed s] \<and>
         html5QrCodeRef (initializeScanner p s) = Some (constructed s) \<and>
         (\<exists>source. calls (initializeScanner p s) =
            calls s @ [Stop i, Start (constructed s) source])"
      by blast
  qed
  ultimately show ?thesis by blast
qed

theorem one_session_at_a_time_witness:
  "single_session (initializeScanner laptop running) \<and>
   scanning (initializeScanner laptop running) = [1] \<and>
   html5QrCodeRef (initializeScanner laptop running) = Some 1"
proof -
  have a: "single_session running"
    by (simp add: single_session_def running_def)
  have b: "scanning running = [] \<or> stop_error laptop = None"
    by (simp add: laptop_def)
  note claim = one_session_at_a_time [OF a b]
  have pre: "html5QrCodeRef running = Some 0 \<and> scanning running = [0] \<and>
      constructor_error laptop = None \<and> start_error laptop = None \<and>
      (isIOS laptop \<or> (\<exists>c cs. getCameras laptop = Inr (Some (c # cs))))"
    by (simp add: running_def laptop_def)
  have c: "constructed running = 1"
    by (simp add: running_def)
  from claim [THEN conjunct2, THEN conjunct2, THEN conjunct2, THEN conjunct2,
      THEN conjunct2, THEN conjunct2, rule_format, OF pre]
  have "scanning (initializeScanner laptop running) = [1] \<and>
        html5QrCodeRef (initializeScanner laptop running) = Some 1"
    by (simp add: c)
  with claim [THEN conjunct2, THEN conjunct1] show ?thesis by simp
qed

text \<open>
  Claim C7 as stated fails: when the \<open>stop()\<close> of the running session is rejected,
  \<open>stopScanner\<close> only logs the error, and \<open>initializeScanner\<close> goes on to construct and
  start a second instance. Two sessions run afterwards, and no \<open>stop\<close> lies between the
  two \<open>start\<close> calls.
\<close>

theorem restart_after_rejected_stop:
  "scanning (initializeScanner stop_rejects running) = [1, 0] \<and>
   html5QrCodeRef (initializeScanner stop_rejects running) = Some 1 \<and>
   calls (initializeScanner stop_rejects running) =
     [Start 0 (DeviceId ''cam-1''), Start 1 (DeviceId ''cam-2'')] \<and>
   \<not> single_session (initializeScanner stop_rejects running)"
  by code_simp

text \<open>
  Nothing keeps a second call of \<open>initializeScanner\<close> from entering while a first one is
  suspended. When it does, as in \<open>interleaved\<close>, each call starts the instance it
  constructed, and two sessions run.
\<close>

lemma interleaved_calls_two_sessions:
  "scanning interleaved = [1, 0] \<and> html5QrCodeRef interleaved = Some 1 \<and>
   \<not> single_session interleaved"
  by code_simp

lemma str_includes_infix: "str_includes (a @ sub @ b) sub"
proof (induction a)
  case Nil
  have "take (length sub) (sub @ b) = sub" by simp
  then show ?case by (cases "sub @ b") auto
next
  case (Cons x a)
  then show ?case by simp
qed

lemma qrCodeErrorCallback_fields:
  "error (qrCodeErrorCallback m s) = error s"
  "isCameraActive (qrCodeErrorCallback m s) = isCameraActive s"
  "isLoading (qrCodeErrorCallback m s) = isLoading s"
  "html5QrCodeRef (qrCodeErrorCallback m s) = html5QrCodeRef s"
  "scanning (qrCodeErrorCallback m s) = scanning s"
  "calls (qrCodeErrorCallback m s) = calls s"
  "detected (qrCodeErrorCallback m s) = detected s"
  by (simp_all add: qrCodeErrorCallback_def console_log_def)

text \<open>
  Claim C8. The failure callback of a frame changes nothing but the console, whatever
  its message: the adapter stays in the state it was in (so \<open>Active\<close> stays \<open>Active\<close>),
  the sessions running and the library calls made are the same (nothing is stopped), the
  error shown is the same, and nothing is handed to \<open>onBarcodeDetected\<close>. For a message
  containing "No barcode or QR code found" the component is unchanged altogether.
\<close>

theorem frame_failure_keeps_scanning:
  "(qrCodeErrorCallback errorMessage s)\<lparr>console := console s\<rparr> = s \<and>
   phase_of (qrCodeErrorCallback errorMessage s) = phase_of s \<and>
   isCameraActive (qrCodeErrorCallback errorMessage s) = isCameraActive s \<and>
   scanning (qrCodeErrorCallback errorMessage s) = scanning s \<and>
   calls (qrCodeErrorCallback errorMessage s) = calls s \<and>
   error (qrCodeErrorCallback errorMessage s) = error s \<and>
   detected (qrCodeErrorCallback errorMessage s) = detected s \<and>
   qrCodeErrorCallback (before @ ''No barcode or QR code found'' @ after) s = s"
proof -
  have "(qrCodeErrorCallback errorMessage s)\<lparr>console := console s\<rparr> = s"
    by (simp add: qrCodeErrorCallback_def console_log_def)
  moreover have "phase_of (qrCodeErrorCallback errorMessage s) = phase_of s"
    by (simp only: phase_of_def qrCodeErrorCallback_fields)
  moreover have "qrCodeErrorCallback (before @ ''No barcode or QR code found'' @ after) s = s"
    by (simp only: qrCodeErrorCallback_def str_includes_infix not_True_eq_False if_False)
  ultimately show ?thesis
    by (simp only: qrCodeErrorCallback_fields simp_thms)
qed

text \<open>
  The outer \<open>catch\<close> is reached when the constructor throws; it then shows the message
  chosen by the name of the error, and the four names it knows have four different
  messages.
\<close>

lemma constructor_failure_classified:
  assumes "constructor_error p = Some e"
  shows "error (initializeScanner p s) = classify e"
  using assms by (simp add: initializeScanner_run Let_def console_log_def)

lemma classify_distinct:
  "distinct (map (\<lambda>n. classify \<lparr>error_name = n, error_message = m\<rparr>)
     [''NotAllowedError'', ''NotFoundError'', ''NotReadableError'', ''OverconstrainedError''])"
  by (simp add: classify_def)

text \<open>
  Claim C9 at a camera whose \<open>start\<close> is rejected, on a device other than iOS with two
  cameras listed. The rejection is caught by the inner \<open>catch\<close>, which shows the same
  message whatever the name of the error: permission denied, camera not found, camera in
  use, constraints unsatisfiable and an unknown error are not told apart, and the detail
  of the unknown error is not shown. The claim asks for a different message for each.
\<close>

theorem start_rejection_not_classified:
  "error (initializeScanner (start_rejects ''NotAllowedError'') fresh) =
     ''Failed to initialize camera. Please check your camera permissions and try again.'' \<and>
   error (initializeScanner (start_rejects ''NotFoundError'') fresh) =
     ''Failed to initialize camera. Please check your camera permissions and try again.'' \<and>
   error (initializeScanner (start_rejects ''NotReadableError'') fresh) =
     ''Failed to initialize camera. Please check your camera permissions and try again.'' \<and>
   error (initializeScanner (start_rejects ''OverconstrainedError'') fresh) =
     ''Failed to initialize camera. Please check your camera permissions and try again.'' \<and>
   error (initializeScanner (start_rejects ''AbortError'') fresh) =
     ''Failed to initialize camera. Please check your camera permissions and try again.''"
  by code_simp

end
